theory Spec2Isabelle
  imports Main "HOL-Library.Sublist"
begin

section \<open>JavaScript array and string primitives\<close>

text \<open>
  The generator works on JavaScript arrays of lines and on strings. A string is modelled as
  \<^typ>\<open>string\<close>; an array as a list. The primitives below follow the ECMAScript
  definitions of \<open>Array.prototype.indexOf\<close>, \<open>Array.prototype.splice\<close>,
  \<open>String.prototype.startsWith\<close>, \<open>String.prototype.includes\<close>,
  \<open>String.prototype.split\<close> and \<open>Array.prototype.join\<close> for the argument
  shapes the program uses.
\<close>

text \<open>\<open>xs.indexOf(x)\<close>: the index of the first element strictly equal to \<open>x\<close>, or \<open>-1\<close>.\<close>

fun indexOf :: "'a list \<Rightarrow> 'a \<Rightarrow> int" where
  "indexOf [] x = - 1"
| "indexOf (y # ys) x =
     (if y = x then 0
      else (let i = indexOf ys x in if i = - 1 then - 1 else i + 1))"

text \<open>
  \<open>xs.splice(start, deleteCount, ...items)\<close>, returning the array as mutated in place:
  a negative \<open>start\<close> counts from the end, and \<open>deleteCount\<close> is clamped to the
  elements that exist from \<open>start\<close> on.
\<close>

definition splice :: "'a list \<Rightarrow> int \<Rightarrow> int \<Rightarrow> 'a list \<Rightarrow> 'a list" where
  "splice xs start deleteCount items =
     (let len = int (length xs);
          actualStart = (if start < 0 then max (len + start) 0 else min start len);
          actualDeleteCount = min (max deleteCount 0) (len - actualStart)
      in take (nat actualStart) xs @ items @ drop (nat (actualStart + actualDeleteCount)) xs)"

text \<open>\<open>s.startsWith(p)\<close>.\<close>

definition startsWith :: "string \<Rightarrow> string \<Rightarrow> bool" where
  "startsWith s p = (take (length p) s = p)"

text \<open>\<open>s.includes(p)\<close>: \<open>p\<close> occurs in \<open>s\<close> as a contiguous substring.\<close>

fun str_includes :: "string \<Rightarrow> string \<Rightarrow> bool" where
  "str_includes [] p = (p = [])"
| "str_includes (c # cs) p = (startsWith (c # cs) p \<or> str_includes cs p)"

text \<open>\<open>s.split('\n')\<close>: never empty; the empty string gives one empty line.\<close>

fun split_lines :: "string \<Rightarrow> string list" where
  "split_lines [] = [[]]"
| "split_lines (c # cs) =
     (if c = CHR 0x0A then [] # split_lines cs
      else (case split_lines cs of
              [] \<Rightarrow> [[c]]
            | l # ls \<Rightarrow> (c # l) # ls))"

text \<open>\<open>lines.join('\n')\<close>.\<close>

fun join_lines :: "string list \<Rightarrow> string" where
  "join_lines [] = []"
| "join_lines [l] = l"
| "join_lines (l # m # ls) = l @ CHR 0x0A # join_lines (m # ls)"

section \<open>The document splicer\<close>

text \<open>
  \<open>replaceOrCreateHeader(lines, newHeaderLines, marker)\<close> mutates \<open>lines\<close> in place; the
  model returns the array after the call. The read \<open>lines[0]\<close> is guarded by
  \<open>lines.length > 0\<close>, as in the source.
\<close>

definition replaceOrCreateHeader :: "string list \<Rightarrow> string list \<Rightarrow> string \<Rightarrow> string list" where
  "replaceOrCreateHeader lines newHeaderLines marker =
     (let markerLineIndex = indexOf lines marker;
          lines1 = (if markerLineIndex = - 1 \<and> length lines > 0 \<and> startsWith (lines ! 0) ''# ''
                    then splice lines 0 1 []
                    else lines)
      in splice lines1 0 (markerLineIndex + 1) newHeaderLines)"

text \<open>
  The specification's vocabulary for the splicer: the header boundary of a document is the
  number of leading lines that belong to the old header. With a marker line it is the
  position just after the first marker; without one it is 1 when the first line is a
  top-level heading and 0 otherwise.
\<close>

fun isTopLevelHeading :: "string \<Rightarrow> bool" where
  "isTopLevelHeading (a # b # rest) = (a = CHR ''#'' \<and> b = CHR '' '')"
| "isTopLevelHeading l = False"

definition headerBoundary :: "string list \<Rightarrow> string \<Rightarrow> nat" where
  "headerBoundary lines marker =
     (if marker \<in> set lines then Suc (length (takeWhile (\<lambda>l. l \<noteq> marker) lines))
      else if lines \<noteq> [] \<and> isTopLevelHeading (hd lines) then 1
      else 0)"

section \<open>Rule metadata and the metadata normalizer\<close>

text \<open>
  Exceptions of the program are values: \<open>Error\<close> is \<open>throw new Error(message)\<close>,
  \<open>TypeError\<close> is the runtime's error on reading a property of \<open>undefined\<close>, and
  \<open>ENOENT\<close> is \<open>readFileSync\<close> on a path that holds no file.
\<close>

datatype error = Error string | TypeError | ENOENT

text \<open>
  A rule of the plugin is a function (old style) or an object; either may carry the
  property \<open>meta\<close>. Optional properties are options; the options schema is kept abstract
  (\<open>'s\<close>): the program only hands it to \<open>hasOptions\<close> and \<open>getAllNamedOptions\<close>.
  \<open>meta.docs\<close> itself may be missing, and the normalizer reads through it unguarded.
\<close>

record RuleMetaDataDocs =
  docs_description :: "string option"
  docs_requiresTypeChecking :: "bool option"

record 's RuleMetaData =
  meta_docs :: "RuleMetaDataDocs option"
  meta_fixable :: "string option"
  meta_hasSuggestions :: "bool option"
  meta_deprecated :: "bool option"
  meta_schema :: 's
  meta_type :: "string option"

datatype 's RuleModule =
  RuleCreateFunction "'s RuleMetaData option"
  | RuleObject "'s RuleMetaData option"

text \<open>\<open>rule.meta\<close>: \<open>undefined\<close> on a function or an object without the property.\<close>

fun ruleMeta :: "'s RuleModule \<Rightarrow> 's RuleMetaData option" where
  "ruleMeta (RuleCreateFunction m) = m"
| "ruleMeta (RuleObject m) = m"

record 's RuleDetails =
  name :: string
  description :: "string option"
  fixable :: bool
  hasSuggestions :: bool
  requiresTypeChecking :: bool
  deprecated :: bool
  schema :: 's
  type :: "string option"

text \<open>\<open>x ?? false\<close> on an optional boolean.\<close>

definition orFalse :: "bool option \<Rightarrow> bool" where
  "orFalse x = (case x of None \<Rightarrow> False | Some b \<Rightarrow> b)"

text \<open>
  The object literal that \<open>generate\<close> maps over the rules that have metadata. Its second
  property reads \<open>rule.meta.docs.description\<close>, which throws a \<open>TypeError\<close> when
  \<open>meta.docs\<close> is missing. It sets seven properties; \<open>type\<close> is not among them, so it
  stays \<open>undefined\<close>.
\<close>

definition ruleDetails :: "string \<Rightarrow> 's RuleMetaData \<Rightarrow> error + 's RuleDetails" where
  "ruleDetails n m =
     (case meta_docs m of
        None \<Rightarrow> Inl TypeError
      | Some docs \<Rightarrow>
          Inr \<lparr> name = n,
                description = docs_description docs,
                fixable = (case meta_fixable m of
                             None \<Rightarrow> False
                           | Some f \<Rightarrow> if f \<noteq> [] then f \<in> set [''code'', ''whitespace''] else False),
                hasSuggestions = orFalse (meta_hasSuggestions m),
                requiresTypeChecking = orFalse (docs_requiresTypeChecking docs),
                deprecated = orFalse (meta_deprecated m),
                schema = meta_schema m,
                type = None \<rparr>)"

text \<open>
  \<open>Object.entries(plugin.rules).filter(...)\<close>: the entries whose rule has metadata, in
  enumeration order, each with the metadata the next stage reads.
\<close>

definition rulesWithMeta :: "(string \<times> 's RuleModule) list \<Rightarrow> (string \<times> 's RuleMetaData) list" where
  "rulesWithMeta entries =
     List.map_filter (\<lambda>(n, rule). map_option (Pair n) (ruleMeta rule)) entries"

text \<open>\<open>.map(...)\<close> over the filtered entries: the first exception ends it.\<close>

fun mapDetails :: "(string \<times> 's RuleMetaData) list \<Rightarrow> error + 's RuleDetails list" where
  "mapDetails [] = Inr []"
| "mapDetails ((n, m) # rest) =
     (case ruleDetails n m of
        Inl e \<Rightarrow> Inl e
      | Inr d \<Rightarrow>
          (case mapDetails rest of
             Inl e \<Rightarrow> Inl e
           | Inr ds \<Rightarrow> Inr (d # ds)))"

definition gatherDetails :: "(string \<times> 's RuleModule) list \<Rightarrow> error + 's RuleDetails list" where
  "gatherDetails entries = mapDetails (rulesWithMeta entries)"

section \<open>Updating and validating the rule docs\<close>

text \<open>
  The part of the outside world \<open>generate\<close> acts on: the files it reads and writes, the
  lines printed by \<open>console.error\<close>, and \<open>process.exitCode\<close> (unset at start).
\<close>

record 'p world =
  files :: "'p \<rightharpoonup> string"
  stderr :: "string list"
  exitCode :: "nat option"

text \<open>
  The collaborators of \<open>generate\<close> that live in other modules (\<open>node:path\<close>,
  \<open>prettier\<close>, \<open>rule-options\<close>, \<open>rule-notices\<close>, \<open>rule-list\<close>, \<open>markers\<close>)
  are parameters of the model. \<open>pathToDoc\<close> stands for
  \<open>join(pathTo.docs, 'rules', `${name}.md`)\<close>, and \<open>generateRuleHeaderLines\<close>
  and \<open>updateRulesList\<close> are already applied to the plugin and its prefix.
\<close>

record ('p, 's) collaborators =
  pathToDoc :: "string \<Rightarrow> 'p"
  pathToReadme :: 'p
  generateRuleHeaderLines :: "string option \<Rightarrow> string \<Rightarrow> string list"
  END_RULE_HEADER_MARKER :: string
  format :: "string \<Rightarrow> string"
  hasOptions :: "'s \<Rightarrow> bool"
  getAllNamedOptions :: "'s \<Rightarrow> string list"
  updateRulesList :: "'s RuleDetails list \<Rightarrow> string \<Rightarrow> string"

text \<open>The message \<open>expectContent\<close> prints.\<close>

definition failureMessage :: "string \<Rightarrow> string \<Rightarrow> bool \<Rightarrow> string" where
  "failureMessage ruleName content expected =
     ''`'' @ ruleName @ ''` rule doc should '' @
     (if expected then [] else ''not '') @ ''have included: '' @ content"

definition expectContent :: "string \<Rightarrow> string \<Rightarrow> string \<Rightarrow> bool \<Rightarrow> 'p world \<Rightarrow> 'p world" where
  "expectContent ruleName contents content expected w =
     (if str_includes contents content \<noteq> expected
      then w\<lparr> stderr := stderr w @ [failureMessage ruleName content expected],
              exitCode := Some 1 \<rparr>
      else w)"

text \<open>
  One iteration of the loop over \<open>details\<close>: read the doc, splice the new header,
  write the formatted result, then check the contents that were read.
\<close>

definition updateRuleDoc ::
  "('p, 's) collaborators \<Rightarrow> 's RuleDetails \<Rightarrow> 'p world \<Rightarrow> error + 'p world" where
  "updateRuleDoc c d w =
     (let path = pathToDoc c (name d) in
      case files w path of
        None \<Rightarrow> Inl ENOENT
      | Some contents \<Rightarrow>
          (let lines = split_lines contents;
               newHeaderLines = generateRuleHeaderLines c (description d) (name d);
               lines' = replaceOrCreateHeader lines newHeaderLines (END_RULE_HEADER_MARKER c);
               w1 = w\<lparr> files := (files w)(path \<mapsto> format c (join_lines lines')) \<rparr>;
               w2 = expectContent (name d) contents ''## Options'' (hasOptions c (schema d)) w1
           in Inr (fold (\<lambda>namedOption. expectContent (name d) contents namedOption True)
                        (getAllNamedOptions c (schema d)) w2)))"

fun updateRuleDocs ::
  "('p, 's) collaborators \<Rightarrow> 's RuleDetails list \<Rightarrow> 'p world \<Rightarrow> error + 'p world" where
  "updateRuleDocs c [] w = Inr w"
| "updateRuleDocs c (d # ds) w =
     (case updateRuleDoc c d w of
        Inl e \<Rightarrow> Inl e
      | Inr w' \<Rightarrow> updateRuleDocs c ds w')"

text \<open>
  \<open>generate\<close> after the plugin is loaded. \<open>Object.entries(plugin.rules)\<close> throws a
  \<open>TypeError\<close> when the plugin has no \<open>rules\<close>, and an exception of the normalizer
  ends the run before any rule doc is read.
\<close>

record ('c, 's) Plugin =
  configs :: "(string \<times> 'c) list option"
  rules :: "(string \<times> 's RuleModule) list option"

definition generate ::
  "('p, 's) collaborators \<Rightarrow> ('c, 's) Plugin \<Rightarrow> 'p world \<Rightarrow> error + 'p world" where
  "generate c plugin w =
     (case rules plugin of
        None \<Rightarrow> Inl TypeError
      | Some entries \<Rightarrow>
          (case gatherDetails entries of
             Inl e \<Rightarrow> Inl e
           | Inr details \<Rightarrow>
               (case updateRuleDocs c details w of
                  Inl e \<Rightarrow> Inl e
                | Inr w' \<Rightarrow>
                    (case files w' (pathToReadme c) of
                       None \<Rightarrow> Inl ENOENT
                     | Some readme \<Rightarrow>
                         Inr (w'\<lparr> files := (files w')(pathToReadme c \<mapsto>
                                     format c (updateRulesList c details readme)) \<rparr>)))))"

text \<open>
  The specification's account of the validation of one rule doc: the failures to report
  for a rule, given the contents of its doc, whether its schema declares options, and the
  named options of the schema.
\<close>

definition expectedFailures :: "string \<Rightarrow> string \<Rightarrow> bool \<Rightarrow> string list \<Rightarrow> string list" where
  "expectedFailures ruleName contents declaresOptions namedOptions =
     (if str_includes contents ''## Options'' = declaresOptions then []
      else [failureMessage ruleName ''## Options'' declaresOptions]) @
     map (\<lambda>namedOption. failureMessage ruleName namedOption True)
         (filter (\<lambda>namedOption. \<not> str_includes contents namedOption) namedOptions)"

text \<open>
  The specification's account of the validation of one rule, with the collaborators'
  answers for its schema filled in.
\<close>

definition ruleFailures :: "('p, 's) collaborators \<Rightarrow> 's RuleDetails \<Rightarrow> string \<Rightarrow> string list" where
  "ruleFailures c d contents =
     expectedFailures (name d) contents (hasOptions c (schema d)) (getAllNamedOptions c (schema d))"

section \<open>A small plugin\<close>

text \<open>
  Concrete collaborators, used to run the model: the schema of a rule is the list of its
  named options, a doc's path is the rule's name, the header is a title and the marker,
  and the formatter changes nothing.
\<close>

definition exampleCollaborators :: "(string, string list) collaborators" where
  "exampleCollaborators =
     \<lparr> pathToDoc = (\<lambda>n. n),
       pathToReadme = ''README.md'',
       generateRuleHeaderLines = (\<lambda>desc n. [''# '' @ n, ''<!-- end -->'']),
       END_RULE_HEADER_MARKER = ''<!-- end -->'',
       format = (\<lambda>str. str),
       hasOptions = (\<lambda>s. s \<noteq> []),
       getAllNamedOptions = (\<lambda>s. s),
       updateRulesList = (\<lambda>details readme. readme) \<rparr>"

definition exampleMeta :: "string list \<Rightarrow> string option \<Rightarrow> string option \<Rightarrow> string list RuleMetaData" where
  "exampleMeta s f t =
     \<lparr> meta_docs = Some \<lparr> docs_description = None, docs_requiresTypeChecking = None \<rparr>,
       meta_fixable = f,
       meta_hasSuggestions = None,
       meta_deprecated = None,
       meta_schema = s,
       meta_type = t \<rparr>"

text \<open>The record the normalizer makes of a rule of the example, given its name, schema and fixability.\<close>

definition exampleDetails :: "string \<Rightarrow> string list \<Rightarrow> bool \<Rightarrow> string list RuleDetails" where
  "exampleDetails n s f =
     \<lparr> name = n,
       description = None,
       fixable = f,
       hasSuggestions = False,
       requiresTypeChecking = False,
       deprecated = False,
       schema = s,
       type = None \<rparr>"

definition examplePlugin :: "(unit, string list) Plugin" where
  "examplePlugin =
     \<lparr> configs = None,
       rules = Some [(''no-foo'', RuleObject (Some (exampleMeta [''ignoreBar''] (Some ''code'') (Some ''problem'')))),
                     (''legacy'', RuleCreateFunction None)] \<rparr>"

definition exampleWorld :: "string world" where
  "exampleWorld =
     \<lparr> files = [''no-foo'' \<mapsto> ''no options mentioned'', ''README.md'' \<mapsto> ''# Plugin''],
       stderr = [],
       exitCode = None \<rparr>"

section \<open>Legends of the rule list\<close>

text \<open>
  A config may have an emoji. \<open>ConfigEmojis\<close> is an array of pairs; \<open>find\<close> takes the
  first pair that matches, and an empty emoji is falsy, hence counts as none.
\<close>

record ConfigEmoji =
  config :: string
  emoji :: string

type_synonym ConfigEmojis = "ConfigEmoji list"

text \<open>
  The columns that have an entry in \<open>LEGENDS\<close>. The column \<open>TYPE\<close> is written
  \<open>TYPE_COLUMN\<close>, since \<open>TYPE\<close> is reserved syntax.
\<close>

datatype COLUMN_TYPE =
  CONFIGS | TYPE_COLUMN | DEPRECATED | DESCRIPTION | FIXABLE | HAS_SUGGESTIONS | NAME
  | REQUIRES_TYPE_CHECKING

text \<open>
  The constants the legends import from \<open>emojis\<close> and \<open>rule-type\<close> are parameters.
  \<open>RULE_TYPE_MESSAGES_LEGEND\<close> is read at the elements of \<open>RULE_TYPES\<close> only.
\<close>

record legendConstants =
  EMOJI_DEPRECATED :: string
  EMOJI_FIXABLE :: string
  EMOJI_HAS_SUGGESTIONS :: string
  EMOJI_CONFIG :: string
  EMOJI_REQUIRES_TYPE_CHECKING :: string
  EMOJI_TYPE :: string
  RULE_TYPES :: "string list"
  RULE_TYPE_MESSAGES_LEGEND :: "string \<Rightarrow> string"

text \<open>Truthiness of an optional string: \<open>undefined\<close> and the empty string are falsy.\<close>

definition truthy :: "string option \<Rightarrow> bool" where
  "truthy v = (case v of None \<Rightarrow> False | Some s \<Rightarrow> s \<noteq> [])"

text \<open>\<open>configEmojis.find(p)?.emoji\<close>.\<close>

definition findEmoji :: "(ConfigEmoji \<Rightarrow> bool) \<Rightarrow> ConfigEmojis \<Rightarrow> string option" where
  "findEmoji p configEmojis = map_option emoji (find p configEmojis)"

definition configsLinkOrWord :: "string option \<Rightarrow> string" where
  "configsLinkOrWord urlConfigs =
     (case urlConfigs of
        None \<Rightarrow> ''Configurations''
      | Some u \<Rightarrow> if u \<noteq> [] then ''[Configurations]('' @ u @ '')'' else ''Configurations'')"

definition configLinkOrWord :: "string option \<Rightarrow> string" where
  "configLinkOrWord urlConfigs =
     (case urlConfigs of
        None \<Rightarrow> ''configuration''
      | Some u \<Rightarrow> if u \<noteq> [] then ''[configuration]('' @ u @ '')'' else ''configuration'')"

definition genericConfigLegend :: "legendConstants \<Rightarrow> string option \<Rightarrow> string" where
  "genericConfigLegend k urlConfigs =
     EMOJI_CONFIG k @ '' '' @ configsLinkOrWord urlConfigs @ '' enabled in.''"

definition configLegend :: "string \<Rightarrow> string \<Rightarrow> string option \<Rightarrow> string" where
  "configLegend e configName urlConfigs =
     e @ '' Enabled in the `'' @ configName @ ''` '' @ configLinkOrWord urlConfigs @ ''.''"

text \<open>\<open>LEGENDS[COLUMN_TYPE.CONFIGS]\<close>. \<open>Object.keys\<close> lists the config names in order.\<close>

definition legendConfigs ::
  "legendConstants \<Rightarrow> ('c, 's) Plugin \<Rightarrow> ConfigEmojis \<Rightarrow> string list \<Rightarrow> string option
     \<Rightarrow> error + string list" where
  "legendConfigs k plugin configEmojis ignoreConfig urlConfigs =
     (case configs plugin of
        None \<Rightarrow>
          Inl (Error ''Should not be attempting to display configs column when there are no configs.'')
      | Some cs \<Rightarrow>
          (let configNames = map fst cs;
               configNamesWithoutIgnored =
                 filter (\<lambda>configName. configName \<notin> set ignoreConfig) configNames;
               legends =
                 (if length configNamesWithoutIgnored > 1 \<or>
                     \<not> truthy (findEmoji
                         (\<lambda>configEmoji. config configEmoji \<in> set configNamesWithoutIgnored)
                         configEmojis)
                  then [genericConfigLegend k urlConfigs]
                  else [])
           in Inr (legends @
                   concat (map (\<lambda>configName.
                       (case findEmoji (\<lambda>configEmoji. config configEmoji = configName) configEmojis of
                          None \<Rightarrow> []
                        | Some e \<Rightarrow> if e \<noteq> [] then [configLegend e configName urlConfigs] else []))
                     configNamesWithoutIgnored))))"

text \<open>
  \<open>Object.values(rules).some(rule => typeof rule === 'object' && rule.meta.type === ruleType)\<close>:
  it stops at the first rule of the type, and reading \<open>rule.meta.type\<close> of an object
  without metadata throws.
\<close>

fun someRuleHasType :: "'s RuleModule list \<Rightarrow> string \<Rightarrow> error + bool" where
  "someRuleHasType [] ruleType = Inr False"
| "someRuleHasType (RuleCreateFunction m # rs) ruleType = someRuleHasType rs ruleType"
| "someRuleHasType (RuleObject None # rs) ruleType = Inl TypeError"
| "someRuleHasType (RuleObject (Some m) # rs) ruleType =
     (if meta_type m = Some ruleType then Inr True else someRuleHasType rs ruleType)"

text \<open>The loop over \<open>RULE_TYPES\<close>, with its variables \<open>hasAnyRuleType\<close> and \<open>legends\<close>.\<close>

fun typeLegends ::
  "legendConstants \<Rightarrow> 's RuleModule list \<Rightarrow> string list \<Rightarrow> bool \<Rightarrow> string list
     \<Rightarrow> error + string list" where
  "typeLegends k rs [] hasAnyRuleType legends = Inr legends"
| "typeLegends k rs (ruleType # ruleTypes) hasAnyRuleType legends =
     (case someRuleHasType rs ruleType of
        Inl e \<Rightarrow> Inl e
      | Inr hasThisRuleType \<Rightarrow>
          if hasThisRuleType
          then typeLegends k rs ruleTypes True
                 ((if hasAnyRuleType then legends
                   else legends @ [EMOJI_TYPE k @ '' The type of rule.'']) @
                  [RULE_TYPE_MESSAGES_LEGEND k ruleType])
          else typeLegends k rs ruleTypes hasAnyRuleType legends)"

text \<open>\<open>LEGENDS[COLUMN_TYPE.TYPE]\<close>.\<close>

definition legendType :: "legendConstants \<Rightarrow> ('c, 's) Plugin \<Rightarrow> error + string list" where
  "legendType k plugin =
     (case rules plugin of
        None \<Rightarrow>
          Inl (Error ''Should not be attempting to display type column when there are no rules.'')
      | Some rs \<Rightarrow> typeLegends k (map snd rs) (RULE_TYPES k) False [])"

text \<open>
  An entry of \<open>LEGENDS\<close> is a string, \<open>undefined\<close>, or a function of the plugin and the
  options.
\<close>

datatype ('c, 's) legend =
  LegendString string
  | LegendUndefined
  | LegendFunction
      "('c, 's) Plugin \<Rightarrow> ConfigEmojis \<Rightarrow> string list \<Rightarrow> string option \<Rightarrow> error + string list"

fun LEGENDS :: "legendConstants \<Rightarrow> COLUMN_TYPE \<Rightarrow> ('c, 's) legend" where
  "LEGENDS k CONFIGS = LegendFunction (legendConfigs k)"
| "LEGENDS k TYPE_COLUMN = LegendFunction (\<lambda>plugin configEmojis ignoreConfig urlConfigs. legendType k plugin)"
| "LEGENDS k DEPRECATED = LegendString (EMOJI_DEPRECATED k @ '' Deprecated.'')"
| "LEGENDS k DESCRIPTION = LegendUndefined"
| "LEGENDS k FIXABLE = LegendString (EMOJI_FIXABLE k @
     '' Automatically fixable by the [`--fix` CLI option](https://eslint.org/docs/user-guide/command-line-interface#--fix).'')"
| "LEGENDS k HAS_SUGGESTIONS = LegendString (EMOJI_HAS_SUGGESTIONS k @
     '' Manually fixable by [editor suggestions](https://eslint.org/docs/developer-guide/working-with-rules#providing-suggestions).'')"
| "LEGENDS k NAME = LegendUndefined"
| "LEGENDS k REQUIRES_TYPE_CHECKING =
     LegendString (EMOJI_REQUIRES_TYPE_CHECKING k @ '' Requires type information.'')"

text \<open>
  The \<open>flatMap\<close> of \<open>generateLegend\<close> over \<open>Object.entries(columns)\<close>; an exception of
  a legend function ends it. An entry that is \<open>undefined\<close> or the empty string is falsy
  and gives no line.
\<close>

fun legendLines ::
  "legendConstants \<Rightarrow> (COLUMN_TYPE \<times> bool) list \<Rightarrow> ('c, 's) Plugin \<Rightarrow> ConfigEmojis
     \<Rightarrow> string list \<Rightarrow> string option \<Rightarrow> error + string list" where
  "legendLines k [] plugin configEmojis ignoreConfig urlConfigs = Inr []"
| "legendLines k ((columnType, enabled) # columns) plugin configEmojis ignoreConfig urlConfigs =
     (case (if \<not> enabled then Inr []
            else (case LEGENDS k columnType of
                    LegendUndefined \<Rightarrow> Inr []
                  | LegendString str \<Rightarrow> if str = [] then Inr [] else Inr [str]
                  | LegendFunction f \<Rightarrow> f plugin configEmojis ignoreConfig urlConfigs)) of
        Inl e \<Rightarrow> Inl e
      | Inr ls \<Rightarrow>
          (case legendLines k columns plugin configEmojis ignoreConfig urlConfigs of
             Inl e \<Rightarrow> Inl e
           | Inr rest \<Rightarrow> Inr (ls @ rest)))"

text \<open>\<open>lines.join('\\\n')\<close>: a backslash and a line feed between two lines.\<close>

fun join_legend :: "string list \<Rightarrow> string" where
  "join_legend [] = []"
| "join_legend [l] = l"
| "join_legend (l # m # ls) = l @ CHR 0x5C # CHR 0x0A # join_legend (m # ls)"

definition generateLegend ::
  "legendConstants \<Rightarrow> (COLUMN_TYPE \<times> bool) list \<Rightarrow> ('c, 's) Plugin \<Rightarrow> ConfigEmojis
     \<Rightarrow> string list \<Rightarrow> string option \<Rightarrow> error + string" where
  "generateLegend k columns plugin configEmojis ignoreConfig urlConfigs =
     (case legendLines k columns plugin configEmojis ignoreConfig urlConfigs of
        Inl e \<Rightarrow> Inl e
      | Inr ls \<Rightarrow> Inr (join_legend ls))"

text \<open>
  The specification's vocabulary for the configs legend: a config has an assigned emoji when
  the first entry for it in the emoji list carries a non-empty glyph.
\<close>

definition assignedEmoji :: "ConfigEmojis \<Rightarrow> string \<Rightarrow> string option" where
  "assignedEmoji configEmojis configName =
     (case find (\<lambda>configEmoji. config configEmoji = configName) configEmojis of
        None \<Rightarrow> None
      | Some configEmoji \<Rightarrow> if emoji configEmoji = [] then None else Some (emoji configEmoji))"

definition nonIgnoredConfigs :: "('c, 's) Plugin \<Rightarrow> string list \<Rightarrow> string list" where
  "nonIgnoredConfigs plugin ignoreConfig =
     (case configs plugin of
        None \<Rightarrow> []
      | Some cs \<Rightarrow> filter (\<lambda>configName. configName \<notin> set ignoreConfig) (map fst cs))"

text \<open>
  Constants for the legends. The glyphs are stand-ins in ASCII; no property below depends
  on them.
\<close>

definition exampleConstants :: legendConstants where
  "exampleConstants =
     \<lparr> EMOJI_DEPRECATED = ''(x)'',
       EMOJI_FIXABLE = ''(fix)'',
       EMOJI_HAS_SUGGESTIONS = ''(idea)'',
       EMOJI_CONFIG = ''(cfg)'',
       EMOJI_REQUIRES_TYPE_CHECKING = ''(types)'',
       EMOJI_TYPE = ''(type)'',
       RULE_TYPES = [''problem'', ''suggestion'', ''layout''],
       RULE_TYPE_MESSAGES_LEGEND = (\<lambda>ruleType. ''(t) '' @ ruleType) \<rparr>"

section \<open>Severities\<close>

text \<open>
  A rule level is a number or a string; a JavaScript \<open>Set\<close> compares them by value, and
  a number never equals a string.
\<close>

datatype RuleSeverity = SeverityNumber int | SeverityString string

definition SEVERITY_ERROR :: "RuleSeverity set" where
  "SEVERITY_ERROR = {SeverityNumber 2, SeverityString ''error''}"

definition SEVERITY_WARN :: "RuleSeverity set" where
  "SEVERITY_WARN = {SeverityNumber 1, SeverityString ''warn''}"

definition SEVERITY_OFF :: "RuleSeverity set" where
  "SEVERITY_OFF = {SeverityNumber 0, SeverityString ''off''}"

datatype SEVERITY_TYPE = SEVERITY_TYPE_error | SEVERITY_TYPE_warn | SEVERITY_TYPE_off

fun SEVERITY_TYPE_TO_SET :: "SEVERITY_TYPE \<Rightarrow> RuleSeverity set" where
  "SEVERITY_TYPE_TO_SET SEVERITY_TYPE_error = SEVERITY_ERROR"
| "SEVERITY_TYPE_TO_SET SEVERITY_TYPE_warn = SEVERITY_WARN"
| "SEVERITY_TYPE_TO_SET SEVERITY_TYPE_off = SEVERITY_OFF"

section \<open>Facts about the primitives\<close>

lemma indexOf_absent: "x \<notin> set xs \<Longrightarrow> indexOf xs x = - 1"
  by (induction xs) (auto simp: Let_def)

lemma indexOf_first: "x \<notin> set pre \<Longrightarrow> indexOf (pre @ x # post) x = int (length pre)"
  by (induction pre) (auto simp: Let_def)

lemma splice_front: "0 \<le> n \<Longrightarrow> splice xs 0 n items = items @ drop (nat n) xs"
  by (auto simp: splice_def Let_def min_def max_def)

lemma startsWith_heading: "startsWith l ''# '' = isTopLevelHeading l"
proof (cases l)
  case Nil
  then show ?thesis by (simp add: startsWith_def)
next
  case (Cons a as)
  then show ?thesis
    by (cases as) (auto simp: startsWith_def)
qed

lemma replace_with_marker:
  assumes "marker \<notin> set pre"
  shows "replaceOrCreateHeader (pre @ marker # post) new marker = new @ post"
proof -
  have i: "indexOf (pre @ marker # post) marker = int (length pre)"
    using assms by (rule indexOf_first)
  have "splice (pre @ marker # post) 0 (int (length pre) + 1) new
          = new @ drop (nat (int (length pre) + 1)) (pre @ marker # post)"
    by (rule splice_front) simp
  moreover have "nat (int (length pre) + 1) = Suc (length pre)" by simp
  ultimately show ?thesis
    by (simp add: replaceOrCreateHeader_def i)
qed

lemma replace_without_marker:
  assumes "marker \<notin> set lines"
  shows "replaceOrCreateHeader lines new marker =
           new @ (if lines \<noteq> [] \<and> isTopLevelHeading (hd lines) then tl lines else lines)"
proof -
  have i: "indexOf lines marker = - 1"
    using assms by (rule indexOf_absent)
  have d1: "splice lines 0 1 [] = tl lines"
    by (simp add: splice_front drop_Suc)
  have p: "\<And>ys. splice ys 0 0 new = new @ ys"
    by (simp add: splice_front)
  have "replaceOrCreateHeader lines new marker =
          new @ (if length lines > 0 \<and> isTopLevelHeading (lines ! 0) then tl lines else lines)"
    by (simp add: replaceOrCreateHeader_def i d1 p startsWith_heading)
  moreover have "lines \<noteq> [] \<Longrightarrow> lines ! 0 = hd lines"
    by (simp add: hd_conv_nth)
  ultimately show ?thesis by auto
qed

lemma takeWhile_split:
  assumes "marker \<notin> set pre"
  shows "takeWhile (\<lambda>l. l \<noteq> marker) (pre @ marker # post) = pre"
  using assms by (induction pre) auto

lemma replace_boundary:
  "replaceOrCreateHeader lines new marker = new @ drop (headerBoundary lines marker) lines"
proof (cases "marker \<in> set lines")
  case True
  then obtain pre post where s: "lines = pre @ marker # post" "marker \<notin> set pre"
    by (auto dest: split_list_first)
  then have "headerBoundary lines marker = Suc (length pre)"
    by (simp add: headerBoundary_def takeWhile_split)
  with s show ?thesis by (simp add: replace_with_marker)
next
  case False
  then show ?thesis
    by (cases lines) (simp_all add: replace_without_marker headerBoundary_def)
qed

lemma after_first_marker:
  assumes "marker \<in> set lines"
  shows "drop (headerBoundary lines marker) lines = tl (dropWhile (\<lambda>l. l \<noteq> marker) lines)"
proof -
  from assms obtain pre post where s: "lines = pre @ marker # post" "marker \<notin> set pre"
    by (auto dest: split_list_first)
  then have "dropWhile (\<lambda>l. l \<noteq> marker) lines = marker # post"
    by (auto simp: dropWhile_append3)
  moreover from s have "headerBoundary lines marker = Suc (length pre)"
    by (simp add: headerBoundary_def takeWhile_split)
  ultimately show ?thesis using s by simp
qed

section \<open>Properties of the document splicer\<close>

text \<open>
  C1 (as amended). For every document and every new header block that contains the marker
  line, splicing the block in twice gives the same document as splicing it in once if and
  only if the marker is the last line of the block and occurs nowhere before. So the
  splicer is idempotent on the header blocks that end with the marker, and on no other
  block that contains it.
\<close>

theorem replaceOrCreateHeader_idempotent_iff:
  assumes "marker \<in> set new"
  shows "(replaceOrCreateHeader (replaceOrCreateHeader lines new marker) new marker
            = replaceOrCreateHeader lines new marker)
         \<longleftrightarrow> (last new = marker \<and> marker \<notin> set (butlast new))"
proof -
  from assms obtain p q where n: "new = p @ marker # q" "marker \<notin> set p"
    by (auto dest: split_list_first)
  define rest where "rest = drop (headerBoundary lines marker) lines"
  have once: "replaceOrCreateHeader lines new marker = p @ marker # (q @ rest)"
    by (simp add: replace_boundary rest_def n)
  have twice: "replaceOrCreateHeader (p @ marker # (q @ rest)) new marker = new @ q @ rest"
    using n(2) by (rule replace_with_marker)
  have "(new @ q @ rest = new @ rest) \<longleftrightarrow> q = []"
    by simp
  moreover have "(last new = marker \<and> marker \<notin> set (butlast new)) \<longleftrightarrow> q = []"
    using n by (cases q rule: rev_cases) (auto simp: butlast_append)
  ultimately show ?thesis
    using once twice n(1) by simp
qed

text \<open>
  A header block that ends with the marker, spliced twice into a document with a
  hand-written title.
\<close>

theorem replaceOrCreateHeader_idempotent_iff_witness:
  "''<!-- end rule header -->'' \<in> set [''# New title'', ''<!-- end rule header -->''] \<and>
   last [''# New title'', ''<!-- end rule header -->''] = ''<!-- end rule header -->'' \<and>
   ''<!-- end rule header -->'' \<notin> set (butlast [''# New title'', ''<!-- end rule header -->'']) \<and>
   replaceOrCreateHeader
     (replaceOrCreateHeader [''# Old title'', ''Body.'']
        [''# New title'', ''<!-- end rule header -->''] ''<!-- end rule header -->'')
     [''# New title'', ''<!-- end rule header -->''] ''<!-- end rule header -->''
   = replaceOrCreateHeader [''# Old title'', ''Body.'']
       [''# New title'', ''<!-- end rule header -->''] ''<!-- end rule header -->''"
proof -
  have h: "''<!-- end rule header -->'' \<in> set [''# New title'', ''<!-- end rule header -->'']"
    by simp
  have l: "last [''# New title'', ''<!-- end rule header -->''] = ''<!-- end rule header -->'' \<and>
     ''<!-- end rule header -->'' \<notin> set (butlast [''# New title'', ''<!-- end rule header -->''])"
    by simp
  from replaceOrCreateHeader_idempotent_iff [OF h, of "[''# Old title'', ''Body.'']"] l h
  show ?thesis by blast
qed

text \<open>
  The claim as written asks only that the block contains the marker. A block with a blank
  line after the marker contains it, and the second splice repeats the blank line.
\<close>

theorem replaceOrCreateHeader_twice_differs:
  "''<!-- end rule header -->'' \<in> set [''# New title'', ''<!-- end rule header -->'', []] \<and>
   replaceOrCreateHeader [''# Old title'', ''Body.'']
       [''# New title'', ''<!-- end rule header -->'', []] ''<!-- end rule header -->''
     = [''# New title'', ''<!-- end rule header -->'', [], ''Body.''] \<and>
   replaceOrCreateHeader
     (replaceOrCreateHeader [''# Old title'', ''Body.'']
        [''# New title'', ''<!-- end rule header -->'', []] ''<!-- end rule header -->'')
     [''# New title'', ''<!-- end rule header -->'', []] ''<!-- end rule header -->''
     = [''# New title'', ''<!-- end rule header -->'', [], [], ''Body.''] \<and>
   replaceOrCreateHeader
     (replaceOrCreateHeader [''# Old title'', ''Body.'']
        [''# New title'', ''<!-- end rule header -->'', []] ''<!-- end rule header -->'')
     [''# New title'', ''<!-- end rule header -->'', []] ''<!-- end rule header -->''
     \<noteq> replaceOrCreateHeader [''# Old title'', ''Body.'']
         [''# New title'', ''<!-- end rule header -->'', []] ''<!-- end rule header -->''"
  by (simp add: replaceOrCreateHeader_def splice_def startsWith_def Let_def)

text \<open>
  C2. The splicer looks for the first line equal to the marker. When there is one, the
  lines from the top through that line are replaced by the new block. When there is none,
  the first line is dropped exactly when it begins with \<open># \<close>, and the new block is put
  on top.
\<close>

theorem replaceOrCreateHeader_replaces_or_prepends:
  "(marker \<in> set lines \<longrightarrow>
      (\<exists>pre post. lines = pre @ marker # post \<and> marker \<notin> set pre \<and>
         replaceOrCreateHeader lines new marker = new @ post)) \<and>
   (marker \<notin> set lines \<longrightarrow>
      replaceOrCreateHeader lines new marker =
        new @ (if lines \<noteq> [] \<and> isTopLevelHeading (hd lines) then tl lines else lines))"
proof (intro conjI impI)
  assume "marker \<in> set lines"
  then obtain pre post where s: "lines = pre @ marker # post" "marker \<notin> set pre"
    by (auto dest: split_list_first)
  then have "replaceOrCreateHeader lines new marker = new @ post"
    by (simp add: replace_with_marker)
  with s show "\<exists>pre post. lines = pre @ marker # post \<and> marker \<notin> set pre \<and>
         replaceOrCreateHeader lines new marker = new @ post"
    by blast
next
  assume "marker \<notin> set lines"
  then show "replaceOrCreateHeader lines new marker =
        new @ (if lines \<noteq> [] \<and> isTopLevelHeading (hd lines) then tl lines else lines)"
    by (rule replace_without_marker)
qed

text \<open>
  A document with a marker (its second occurrence stays), and a document without one whose
  hand-written title is dropped.
\<close>

theorem replaceOrCreateHeader_replaces_or_prepends_witness:
  "''<!-- end -->'' \<in> set [''# Old'', ''<!-- end -->'', ''Body.'', ''<!-- end -->''] \<and>
   (\<exists>pre post. [''# Old'', ''<!-- end -->'', ''Body.'', ''<!-- end -->''] = pre @ ''<!-- end -->'' # post \<and>
      ''<!-- end -->'' \<notin> set pre \<and>
      replaceOrCreateHeader [''# Old'', ''<!-- end -->'', ''Body.'', ''<!-- end -->'']
        [''# New'', ''<!-- end -->''] ''<!-- end -->'' = [''# New'', ''<!-- end -->''] @ post) \<and>
   ''<!-- end -->'' \<notin> set [''# Old'', ''Body.''] \<and>
   replaceOrCreateHeader [''# Old'', ''Body.''] [''# New'', ''<!-- end -->''] ''<!-- end -->''
     = [''# New'', ''<!-- end -->'', ''Body.'']"
proof -
  have a: "''<!-- end -->'' \<in> set [''# Old'', ''<!-- end -->'', ''Body.'', ''<!-- end -->'']"
    by simp
  have b: "''<!-- end -->'' \<notin> set [''# Old'', ''Body.'']"
    by simp
  from replaceOrCreateHeader_replaces_or_prepends
         [of "''<!-- end -->''" "[''# Old'', ''<!-- end -->'', ''Body.'', ''<!-- end -->'']"
             "[''# New'', ''<!-- end -->'']"] a
  have c: "\<exists>pre post. [''# Old'', ''<!-- end -->'', ''Body.'', ''<!-- end -->''] = pre @ ''<!-- end -->'' # post \<and>
      ''<!-- end -->'' \<notin> set pre \<and>
      replaceOrCreateHeader [''# Old'', ''<!-- end -->'', ''Body.'', ''<!-- end -->'']
        [''# New'', ''<!-- end -->''] ''<!-- end -->'' = [''# New'', ''<!-- end -->''] @ post"
    by blast
  from replaceOrCreateHeader_replaces_or_prepends
         [of "''<!-- end -->''" "[''# Old'', ''Body.'']" "[''# New'', ''<!-- end -->'']"] b
  have d: "replaceOrCreateHeader [''# Old'', ''Body.''] [''# New'', ''<!-- end -->''] ''<!-- end -->''
     = [''# New'', ''<!-- end -->'', ''Body.'']"
    by simp
  from a b c d show ?thesis by blast
qed

text \<open>
  C3. The result starts with the new block, and what follows the block is a suffix of the
  old document, so nothing is appended and nothing outside the header is reordered or
  lost: with a marker line it is exactly the lines after the first marker, and without one
  it is the whole document, less a leading line that begins with \<open># \<close>.
\<close>

theorem replaceOrCreateHeader_frame:
  "take (length new) (replaceOrCreateHeader lines new marker) = new \<and>
   suffix (drop (length new) (replaceOrCreateHeader lines new marker)) lines \<and>
   (marker \<in> set lines \<longrightarrow>
      drop (length new) (replaceOrCreateHeader lines new marker)
        = tl (dropWhile (\<lambda>l. l \<noteq> marker) lines)) \<and>
   (marker \<notin> set lines \<longrightarrow>
      drop (length new) (replaceOrCreateHeader lines new marker)
        = (if lines \<noteq> [] \<and> isTopLevelHeading (hd lines) then tl lines else lines))"
proof -
  have b: "replaceOrCreateHeader lines new marker = new @ drop (headerBoundary lines marker) lines"
    by (rule replace_boundary)
  have "suffix (drop (headerBoundary lines marker) lines) lines"
    by (rule suffix_drop)
  moreover have "marker \<notin> set lines \<Longrightarrow> drop (headerBoundary lines marker) lines
        = (if lines \<noteq> [] \<and> isTopLevelHeading (hd lines) then tl lines else lines)"
    by (cases lines) (simp_all add: headerBoundary_def)
  ultimately show ?thesis
    by (simp add: b after_first_marker)
qed

text \<open>
  A document with a marker keeps the two lines after it; a document without a marker and
  without a title keeps both of its lines.
\<close>

theorem replaceOrCreateHeader_frame_witness:
  "''<!-- end -->'' \<in> set [''# Old'', ''<!-- end -->'', ''## Rule details'', ''Body.''] \<and>
   drop (length [''# New'', ''<!-- end -->''])
     (replaceOrCreateHeader [''# Old'', ''<!-- end -->'', ''## Rule details'', ''Body.'']
        [''# New'', ''<!-- end -->''] ''<!-- end -->'')
     = [''## Rule details'', ''Body.''] \<and>
   ''<!-- end -->'' \<notin> set [''Intro.'', ''Body.''] \<and>
   drop (length [''# New'', ''<!-- end -->''])
     (replaceOrCreateHeader [''Intro.'', ''Body.''] [''# New'', ''<!-- end -->''] ''<!-- end -->'')
     = [''Intro.'', ''Body.'']"
proof -
  have a: "''<!-- end -->'' \<in> set [''# Old'', ''<!-- end -->'', ''## Rule details'', ''Body.'']"
    by simp
  have b: "''<!-- end -->'' \<notin> set [''Intro.'', ''Body.'']"
    by simp
  from replaceOrCreateHeader_frame
         [of "[''# New'', ''<!-- end -->'']"
             "[''# Old'', ''<!-- end -->'', ''## Rule details'', ''Body.'']" "''<!-- end -->''"] a
  have c: "drop (length [''# New'', ''<!-- end -->''])
     (replaceOrCreateHeader [''# Old'', ''<!-- end -->'', ''## Rule details'', ''Body.'']
        [''# New'', ''<!-- end -->''] ''<!-- end -->'')
     = tl (dropWhile (\<lambda>l. l \<noteq> ''<!-- end -->'')
             [''# Old'', ''<!-- end -->'', ''## Rule details'', ''Body.''])"
    by blast
  from replaceOrCreateHeader_frame
         [of "[''# New'', ''<!-- end -->'']" "[''Intro.'', ''Body.'']" "''<!-- end -->''"] b
  have d: "drop (length [''# New'', ''<!-- end -->''])
     (replaceOrCreateHeader [''Intro.'', ''Body.''] [''# New'', ''<!-- end -->''] ''<!-- end -->'')
     = (if [''Intro.'', ''Body.''] \<noteq> [] \<and> isTopLevelHeading (hd [''Intro.'', ''Body.''])
        then tl [''Intro.'', ''Body.''] else [''Intro.'', ''Body.''])"
    by blast
  have e: "tl (dropWhile (\<lambda>l. l \<noteq> ''<!-- end -->'')
             [''# Old'', ''<!-- end -->'', ''## Rule details'', ''Body.''])
           = [''## Rule details'', ''Body.'']"
    by simp
  have f: "(if [''Intro.'', ''Body.''] \<noteq> [] \<and> isTopLevelHeading (hd [''Intro.'', ''Body.''])
        then tl [''Intro.'', ''Body.''] else [''Intro.'', ''Body.'']) = [''Intro.'', ''Body.'']"
    by simp
  from a b c d e f show ?thesis by simp
qed

section \<open>Properties of the validation of rule docs\<close>

lemma expectContent_files: "files (expectContent n cs content e w) = files w"
  by (simp add: expectContent_def)

lemma expectContent_stderr:
  "stderr (expectContent n cs content e w) =
     stderr w @ (if str_includes cs content = e then [] else [failureMessage n content e])"
  by (simp add: expectContent_def)

lemma expectContent_exitCode:
  "exitCode (expectContent n cs content e w) =
     (if str_includes cs content = e then exitCode w else Some 1)"
  by (simp add: expectContent_def)

lemma fold_expectContent_files:
  "files (fold (\<lambda>namedOption. expectContent n cs namedOption True) opts w) = files w"
  by (induction opts arbitrary: w) (simp_all add: expectContent_files)

lemma fold_expectContent_stderr:
  "stderr (fold (\<lambda>namedOption. expectContent n cs namedOption True) opts w) =
     stderr w @ map (\<lambda>namedOption. failureMessage n namedOption True)
                    (filter (\<lambda>namedOption. \<not> str_includes cs namedOption) opts)"
  by (induction opts arbitrary: w) (simp_all add: expectContent_stderr)

lemma fold_expectContent_exitCode:
  "exitCode (fold (\<lambda>namedOption. expectContent n cs namedOption True) opts w) =
     (if filter (\<lambda>namedOption. \<not> str_includes cs namedOption) opts = [] then exitCode w else Some 1)"
  by (induction opts arbitrary: w) (simp_all add: expectContent_exitCode)

lemma updateRuleDoc_result:
  assumes "files w (pathToDoc c (name d)) = Some contents"
  shows "\<exists>w'. updateRuleDoc c d w = Inr w' \<and>
           files w' = (files w)(pathToDoc c (name d) \<mapsto>
              format c (join_lines (replaceOrCreateHeader (split_lines contents)
                 (generateRuleHeaderLines c (description d) (name d)) (END_RULE_HEADER_MARKER c)))) \<and>
           stderr w' = stderr w @ ruleFailures c d contents \<and>
           exitCode w' = (if ruleFailures c d contents = [] then exitCode w else Some 1)"
  using assms
  by (simp add: updateRuleDoc_def Let_def fold_expectContent_files fold_expectContent_stderr
        fold_expectContent_exitCode expectContent_files expectContent_stderr
        expectContent_exitCode ruleFailures_def expectedFailures_def)

lemma updateRuleDocs_result:
  assumes "distinct (map (\<lambda>d. pathToDoc c (name d)) ds)"
      and "\<forall>d\<in>set ds. files w (pathToDoc c (name d)) \<noteq> None"
  shows "\<exists>w'. updateRuleDocs c ds w = Inr w' \<and>
           (\<forall>p. files w p \<noteq> None \<longrightarrow> files w' p \<noteq> None) \<and>
           stderr w' = stderr w @
             concat (map (\<lambda>d. ruleFailures c d (the (files w (pathToDoc c (name d))))) ds) \<and>
           exitCode w' =
             (if concat (map (\<lambda>d. ruleFailures c d (the (files w (pathToDoc c (name d))))) ds) = []
              then exitCode w else Some 1)"
  using assms
proof (induction ds arbitrary: w)
  case Nil
  then show ?case by simp
next
  case (Cons d ds)
  from Cons.prems obtain contents where r: "files w (pathToDoc c (name d)) = Some contents"
    by auto
  from updateRuleDoc_result [OF r] obtain w1 where
    s: "updateRuleDoc c d w = Inr w1"
    and f: "files w1 = (files w)(pathToDoc c (name d) \<mapsto>
              format c (join_lines (replaceOrCreateHeader (split_lines contents)
                 (generateRuleHeaderLines c (description d) (name d)) (END_RULE_HEADER_MARKER c))))"
    and e: "stderr w1 = stderr w @ ruleFailures c d contents"
    and x: "exitCode w1 = (if ruleFailures c d contents = [] then exitCode w else Some 1)"
    by blast
  have "\<forall>d'\<in>set ds. pathToDoc c (name d') \<noteq> pathToDoc c (name d)"
    using Cons.prems(1) by (auto simp: image_iff)
  then have same: "\<forall>d'\<in>set ds. files w1 (pathToDoc c (name d')) = files w (pathToDoc c (name d'))"
    using f by simp
  have d: "distinct (map (\<lambda>d. pathToDoc c (name d)) ds)"
    using Cons.prems(1) by simp
  have p: "\<forall>d'\<in>set ds. files w1 (pathToDoc c (name d')) \<noteq> None"
    using same Cons.prems(2) by simp
  from Cons.IH [OF d p] obtain w' where
    s': "updateRuleDocs c ds w1 = Inr w'"
    and k': "\<forall>p. files w1 p \<noteq> None \<longrightarrow> files w' p \<noteq> None"
    and e': "stderr w' = stderr w1 @
             concat (map (\<lambda>d. ruleFailures c d (the (files w1 (pathToDoc c (name d))))) ds)"
    and x': "exitCode w' =
             (if concat (map (\<lambda>d. ruleFailures c d (the (files w1 (pathToDoc c (name d))))) ds) = []
              then exitCode w1 else Some 1)"
    by blast
  have m: "map (\<lambda>d. ruleFailures c d (the (files w1 (pathToDoc c (name d))))) ds
         = map (\<lambda>d. ruleFailures c d (the (files w (pathToDoc c (name d))))) ds"
    using same by simp
  have k: "\<forall>p. files w p \<noteq> None \<longrightarrow> files w' p \<noteq> None"
    using k' f by simp
  show ?case
    using s s' k e e' x x' r by (simp add: m)
qed

lemma failureMessage_names:
  "sublist n (failureMessage n content e) \<and> suffix content (failureMessage n content e)"
proof -
  have "failureMessage n content e = ''`'' @ n @ (''` rule doc should '' @
     (if e then [] else ''not '') @ ''have included: '' @ content)"
    by (simp add: failureMessage_def)
  then have "sublist n (failureMessage n content e)"
    unfolding sublist_def by blast
  moreover have "suffix content (failureMessage n content e)"
    unfolding suffix_def failureMessage_def by (rule exI [of _ "''`'' @ n @ ''` rule doc should '' @
     (if e then [] else ''not '') @ ''have included: ''"]) simp
  ultimately show ?thesis by simp
qed

lemma ruleFailures_name_rule:
  "m \<in> set (ruleFailures c d contents) \<Longrightarrow> sublist (name d) m"
  by (auto simp: ruleFailures_def expectedFailures_def failureMessage_names split: if_splits)

lemma example_rule:
  "ruleDetails n (exampleMeta s f t) = Inr (exampleDetails n s (f = Some ''code'' \<or> f = Some ''whitespace''))"
  by (auto simp: ruleDetails_def exampleMeta_def exampleDetails_def orFalse_def split: option.splits)

lemma example_details:
  "gatherDetails [(''no-foo'', RuleObject (Some (exampleMeta [''ignoreBar''] (Some ''code'') (Some ''problem'')))),
                     (''legacy'', RuleCreateFunction None)]
   = Inr [exampleDetails ''no-foo'' [''ignoreBar''] True]"
  by (simp add: gatherDetails_def rulesWithMeta_def List.map_filter_simps example_rule)

text \<open>
  C4. When the plugin has rules, the normalizer returns their details, every rule doc and
  the README exist, and the docs are distinct files, \<open>generate\<close> returns normally, having
  processed every rule. What it printed is, rule after rule, the failures of that rule
  against the contents its doc had before the run: one line when the presence of
  \<open>## Options\<close> differs from whether the schema declares options, then one line for each
  named option that the contents do not mention. Each line names its rule. The exit status
  is 1 when there was a failure and is untouched otherwise.
\<close>

theorem generate_validates_rule_docs:
  assumes "rules plugin = Some entries"
      and "gatherDetails entries = Inr details"
      and "distinct (map (\<lambda>d. pathToDoc c (name d)) details)"
      and "\<forall>d\<in>set details. files w (pathToDoc c (name d)) \<noteq> None"
      and "files w (pathToReadme c) \<noteq> None"
  shows "\<exists>w'. generate c plugin w = Inr w' \<and>
           stderr w' = stderr w @
             concat (map (\<lambda>d. ruleFailures c d (the (files w (pathToDoc c (name d))))) details) \<and>
           exitCode w' =
             (if concat (map (\<lambda>d. ruleFailures c d (the (files w (pathToDoc c (name d))))) details) = []
              then exitCode w else Some 1) \<and>
           (\<forall>d\<in>set details.
              \<forall>m\<in>set (ruleFailures c d (the (files w (pathToDoc c (name d))))). sublist (name d) m)"
proof -
  from updateRuleDocs_result [OF assms(3) assms(4)] obtain w1 where
    s: "updateRuleDocs c details w = Inr w1"
    and k: "\<forall>p. files w p \<noteq> None \<longrightarrow> files w1 p \<noteq> None"
    and e: "stderr w1 = stderr w @
             concat (map (\<lambda>d. ruleFailures c d (the (files w (pathToDoc c (name d))))) details)"
    and x: "exitCode w1 =
             (if concat (map (\<lambda>d. ruleFailures c d (the (files w (pathToDoc c (name d))))) details) = []
              then exitCode w else Some 1)"
    by blast
  from k assms(5) obtain readme where r: "files w1 (pathToReadme c) = Some readme"
    by auto
  have "generate c plugin w = Inr (w1\<lparr> files := (files w1)(pathToReadme c \<mapsto>
                                format c (updateRulesList c details readme)) \<rparr>)"
    using assms(1) assms(2) s r by (simp add: generate_def)
  then show ?thesis
    using e x by (simp add: ruleFailures_name_rule)
qed

text \<open>
  A plugin with one rule with metadata, whose schema names the option \<open>ignoreBar\<close> and
  whose doc mentions neither the section nor the option: two failures, exit status 1.
\<close>

theorem generate_validates_rule_docs_witness:
  "rules examplePlugin = Some [(''no-foo'', RuleObject (Some (exampleMeta [''ignoreBar''] (Some ''code'') (Some ''problem'')))),
                     (''legacy'', RuleCreateFunction None)] \<and>
   gatherDetails [(''no-foo'', RuleObject (Some (exampleMeta [''ignoreBar''] (Some ''code'') (Some ''problem'')))),
                     (''legacy'', RuleCreateFunction None)]
     = Inr [exampleDetails ''no-foo'' [''ignoreBar''] True] \<and>
   files exampleWorld ''no-foo'' = Some ''no options mentioned'' \<and>
   files exampleWorld (pathToReadme exampleCollaborators) \<noteq> None \<and>
   (\<exists>w'. generate exampleCollaborators examplePlugin exampleWorld = Inr w' \<and>
      stderr w' = [''`no-foo` rule doc should have included: ## Options'',
                   ''`no-foo` rule doc should have included: ignoreBar''] \<and>
      exitCode w' = Some 1)"
proof -
  let ?entries = "[(''no-foo'', RuleObject (Some (exampleMeta [''ignoreBar''] (Some ''code'') (Some ''problem'')))),
                     (''legacy'', RuleCreateFunction None)]"
  let ?d = "exampleDetails ''no-foo'' [''ignoreBar''] True"
  have a: "rules examplePlugin = Some ?entries"
    by (simp add: examplePlugin_def)
  have g: "gatherDetails ?entries = Inr [?d]"
    by (rule example_details)
  have n: "name ?d = ''no-foo''"
    by (simp add: exampleDetails_def)
  have s: "schema ?d = [''ignoreBar'']"
    by (simp add: exampleDetails_def)
  have p: "pathToDoc exampleCollaborators = (\<lambda>n. n)"
    by (simp add: exampleCollaborators_def)
  have b: "distinct (map (\<lambda>d. pathToDoc exampleCollaborators (name d)) [?d])"
    by simp
  have f: "files exampleWorld ''no-foo'' = Some ''no options mentioned''"
    by (simp add: exampleWorld_def)
  have c: "\<forall>d\<in>set [?d]. files exampleWorld (pathToDoc exampleCollaborators (name d)) \<noteq> None"
    by (simp add: n p f)
  have d: "files exampleWorld (pathToReadme exampleCollaborators) \<noteq> None"
    by (simp add: exampleWorld_def exampleCollaborators_def)
  have e: "ruleFailures exampleCollaborators ?d ''no options mentioned''
           = [''`no-foo` rule doc should have included: ## Options'',
              ''`no-foo` rule doc should have included: ignoreBar'']"
    unfolding ruleFailures_def expectedFailures_def n s
    by (simp add: startsWith_def exampleCollaborators_def failureMessage_def)
  have fl: "concat (map (\<lambda>d. ruleFailures exampleCollaborators d
                 (the (files exampleWorld (pathToDoc exampleCollaborators (name d))))) [?d])
           = [''`no-foo` rule doc should have included: ## Options'',
              ''`no-foo` rule doc should have included: ignoreBar'']"
    by (simp only: list.map concat.simps append_Nil2 n p f option.sel e)
  from generate_validates_rule_docs [OF a g b c d] obtain w' where
    r: "generate exampleCollaborators examplePlugin exampleWorld = Inr w'"
    and st: "stderr w' = stderr exampleWorld @
               concat (map (\<lambda>d. ruleFailures exampleCollaborators d
                 (the (files exampleWorld (pathToDoc exampleCollaborators (name d))))) [?d])"
    and ex: "exitCode w' =
               (if concat (map (\<lambda>d. ruleFailures exampleCollaborators d
                 (the (files exampleWorld (pathToDoc exampleCollaborators (name d))))) [?d]) = []
                then exitCode exampleWorld else Some 1)"
    by blast
  have "stderr w' = [''`no-foo` rule doc should have included: ## Options'',
                   ''`no-foo` rule doc should have included: ignoreBar'']"
    using st unfolding fl by (simp add: exampleWorld_def)
  moreover have "exitCode w' = Some 1"
    using ex unfolding fl by simp
  ultimately have "\<exists>w'. generate exampleCollaborators examplePlugin exampleWorld = Inr w' \<and>
      stderr w' = [''`no-foo` rule doc should have included: ## Options'',
                   ''`no-foo` rule doc should have included: ignoreBar''] \<and>
      exitCode w' = Some 1"
    using r by blast
  with a g f d show ?thesis by blast
qed

text \<open>
  C5 (as amended). For a rule whose schema declares no configurable option, the check of
  the Options section records no failure exactly when the rule doc does not contain
  \<open>## Options\<close>. A doc that contains it gets the failure that it should not have
  included the heading, and the failing exit status.
\<close>

theorem options_section_check_without_options:
  assumes "\<not> hasOptions c (schema d)"
  shows "((expectContent (name d) contents ''## Options'' (hasOptions c (schema d)) w = w)
            \<longleftrightarrow> \<not> str_includes contents ''## Options'') \<and>
         (str_includes contents ''## Options'' \<longrightarrow>
            stderr (expectContent (name d) contents ''## Options'' (hasOptions c (schema d)) w)
              = stderr w @ [failureMessage (name d) ''## Options'' False] \<and>
            exitCode (expectContent (name d) contents ''## Options'' (hasOptions c (schema d)) w)
              = Some 1)"
proof -
  have "stderr (expectContent (name d) contents ''## Options'' False w) \<noteq> stderr w"
    if "str_includes contents ''## Options''"
    using that by (simp add: expectContent_stderr)
  then have "expectContent (name d) contents ''## Options'' False w \<noteq> w"
    if "str_includes contents ''## Options''"
    using that by auto
  moreover have "expectContent (name d) contents ''## Options'' False w = w"
    if "\<not> str_includes contents ''## Options''"
    using that by (simp add: expectContent_def)
  ultimately show ?thesis
    using assms by (auto simp: expectContent_stderr expectContent_exitCode)
qed

text \<open>A rule without options whose doc has no Options section: the check changes nothing.\<close>

theorem options_section_check_without_options_witness:
  "\<not> hasOptions exampleCollaborators (schema (exampleDetails ''no-bar'' [] False)) \<and>
   \<not> str_includes ''Body.'' ''## Options'' \<and>
   expectContent (name (exampleDetails ''no-bar'' [] False)) ''Body.'' ''## Options''
     (hasOptions exampleCollaborators (schema (exampleDetails ''no-bar'' [] False)))
     exampleWorld = exampleWorld"
proof -
  have a: "\<not> hasOptions exampleCollaborators (schema (exampleDetails ''no-bar'' [] False))"
    by (simp add: exampleCollaborators_def exampleDetails_def)
  have b: "\<not> str_includes ''Body.'' ''## Options''"
    by (simp add: startsWith_def)
  from options_section_check_without_options [OF a, of "''Body.''" exampleWorld] a b
  show ?thesis by blast
qed

text \<open>
  The claim as written promises no failure whatever the doc contains. A rule without
  options whose doc has an Options section is reported.
\<close>

theorem options_section_check_fails_without_options:
  "\<not> hasOptions exampleCollaborators (schema (exampleDetails ''no-bar'' [] False)) \<and>
   stderr (expectContent (name (exampleDetails ''no-bar'' [] False))
     ''# no-bar\<newline>\<newline>## Options\<newline>\<newline>This rule has no options.'' ''## Options''
     (hasOptions exampleCollaborators (schema (exampleDetails ''no-bar'' [] False)))
     exampleWorld)
     = [''`no-bar` rule doc should not have included: ## Options''] \<and>
   exitCode (expectContent (name (exampleDetails ''no-bar'' [] False))
     ''# no-bar\<newline>\<newline>## Options\<newline>\<newline>This rule has no options.'' ''## Options''
     (hasOptions exampleCollaborators (schema (exampleDetails ''no-bar'' [] False)))
     exampleWorld) = Some 1"
  by (simp add: exampleCollaborators_def exampleDetails_def expectContent_def
        startsWith_def failureMessage_def exampleWorld_def)

section \<open>Properties of the metadata normalizer\<close>

lemma ruleDetails_Inr:
  assumes "ruleDetails n m = Inr d"
  shows "meta_docs m \<noteq> None \<and> name d = n \<and>
         (fixable d \<longleftrightarrow> meta_fixable m = Some ''code'' \<or> meta_fixable m = Some ''whitespace'')"
  using assms by (auto simp: ruleDetails_def split: option.splits if_splits)

lemma ruleDetails_Inl:
  assumes "ruleDetails n m = Inl e"
  shows "e = TypeError \<and> meta_docs m = None"
  using assms by (auto simp: ruleDetails_def split: option.splits)

lemma mapDetails_Inr:
  assumes "mapDetails xs = Inr ds"
  shows "(\<forall>(n, m)\<in>set xs. meta_docs m \<noteq> None) \<and>
         map (\<lambda>d. (name d, fixable d)) ds =
           map (\<lambda>(n, m). (n, meta_fixable m = Some ''code'' \<or> meta_fixable m = Some ''whitespace'')) xs"
  using assms
proof (induction xs arbitrary: ds)
  case Nil
  then show ?case by simp
next
  case (Cons x xs)
  obtain n m where x: "x = (n, m)"
    by (cases x)
  from Cons.prems x obtain d rest where
    d: "ruleDetails n m = Inr d" and r: "mapDetails xs = Inr rest" and ds: "ds = d # rest"
    by (auto split: sum.splits)
  from Cons.IH [OF r] ruleDetails_Inr [OF d] show ?case
    by (simp add: x ds)
qed

lemma mapDetails_Inl:
  assumes "mapDetails xs = Inl e"
  shows "e = TypeError \<and> (\<exists>(n, m)\<in>set xs. meta_docs m = None)"
  using assms
proof (induction xs)
  case Nil
  then show ?case by simp
next
  case (Cons x xs)
  obtain n m where x: "x = (n, m)"
    by (cases x)
  show ?case
  proof (cases "ruleDetails n m")
    case (Inl e')
    with Cons.prems x have "e' = e" by simp
    with ruleDetails_Inl [OF Inl] show ?thesis by (simp add: x)
  next
    case (Inr d)
    with Cons.prems x have "mapDetails xs = Inl e"
      by (simp split: sum.splits)
    from Cons.IH [OF this] show ?thesis by auto
  qed
qed

lemma rulesWithMeta_iff:
  "(n, m) \<in> set (rulesWithMeta entries) \<longleftrightarrow> (\<exists>rule. (n, rule) \<in> set entries \<and> ruleMeta rule = Some m)"
  unfolding rulesWithMeta_def List.map_filter_def
  by (force simp: image_iff)

text \<open>
  C7. The normalizer either throws a \<open>TypeError\<close>, which it does exactly when a rule with
  metadata has no \<open>meta.docs\<close>, or returns one record for each entry that has metadata, in
  order and with the entry's name. In each record the \<open>fixable\<close> flag is true exactly
  when the entry's declared \<open>meta.fixable\<close> is \<open>code\<close> or \<open>whitespace\<close>; any other
  value, and no value, gives false.
\<close>

theorem normalized_fixable:
  "(case gatherDetails entries of
      Inl e \<Rightarrow>
        e = TypeError \<and>
        (\<exists>(n, rule)\<in>set entries. \<exists>m. ruleMeta rule = Some m \<and> meta_docs m = None)
    | Inr ds \<Rightarrow>
        map (\<lambda>d. (name d, fixable d)) ds =
          map (\<lambda>(n, m). (n, meta_fixable m = Some ''code'' \<or> meta_fixable m = Some ''whitespace''))
              (rulesWithMeta entries) \<and>
        (\<forall>(n, rule)\<in>set entries. \<forall>m. ruleMeta rule = Some m \<longrightarrow>
           meta_docs m \<noteq> None \<and>
           (\<exists>d\<in>set ds. name d = n \<and>
              (fixable d \<longleftrightarrow> meta_fixable m = Some ''code'' \<or> meta_fixable m = Some ''whitespace''))))"
proof (cases "gatherDetails entries")
  case (Inl e)
  then have "mapDetails (rulesWithMeta entries) = Inl e"
    by (simp add: gatherDetails_def)
  from mapDetails_Inl [OF this] obtain n m where
    "e = TypeError" "(n, m) \<in> set (rulesWithMeta entries)" "meta_docs m = None"
    by auto
  then have "e = TypeError \<and>
        (\<exists>(n, rule)\<in>set entries. \<exists>m. ruleMeta rule = Some m \<and> meta_docs m = None)"
    by (auto simp: rulesWithMeta_iff)
  with Inl show ?thesis by simp
next
  case (Inr ds)
  then have "mapDetails (rulesWithMeta entries) = Inr ds"
    by (simp add: gatherDetails_def)
  from mapDetails_Inr [OF this] have
    docs: "\<forall>(n, m)\<in>set (rulesWithMeta entries). meta_docs m \<noteq> None"
    and eq: "map (\<lambda>d. (name d, fixable d)) ds =
          map (\<lambda>(n, m). (n, meta_fixable m = Some ''code'' \<or> meta_fixable m = Some ''whitespace''))
              (rulesWithMeta entries)"
    by simp_all
  have "meta_docs m \<noteq> None \<and>
           (\<exists>d\<in>set ds. name d = n \<and>
              (fixable d \<longleftrightarrow> meta_fixable m = Some ''code'' \<or> meta_fixable m = Some ''whitespace''))"
    if "(n, rule) \<in> set entries" "ruleMeta rule = Some m" for n rule m
  proof -
    from that have w: "(n, m) \<in> set (rulesWithMeta entries)"
      by (auto simp: rulesWithMeta_iff)
    then have "(n, meta_fixable m = Some ''code'' \<or> meta_fixable m = Some ''whitespace'')
                 \<in> set (map (\<lambda>d. (name d, fixable d)) ds)"
      unfolding eq by force
    then obtain d where "d \<in> set ds" "name d = n"
      "fixable d \<longleftrightarrow> meta_fixable m = Some ''code'' \<or> meta_fixable m = Some ''whitespace''"
      by auto
    with docs w show ?thesis by auto
  qed
  then have "\<forall>(n, rule)\<in>set entries. \<forall>m. ruleMeta rule = Some m \<longrightarrow>
           meta_docs m \<noteq> None \<and>
           (\<exists>d\<in>set ds. name d = n \<and>
              (fixable d \<longleftrightarrow> meta_fixable m = Some ''code'' \<or> meta_fixable m = Some ''whitespace''))"
    by auto
  with Inr eq show ?thesis by simp
qed

text \<open>
  Four rules: one declares \<open>code\<close>, one declares another tag, one declares nothing, and
  one is a function without metadata. Three records come out, the first alone fixable.
  A rule with metadata and no \<open>meta.docs\<close> makes the normalizer throw.
\<close>

theorem normalized_fixable_witness:
  "gatherDetails
     [(''no-foo'', RuleObject (Some (exampleMeta [] (Some ''code'') None))),
      (''no-bar'', RuleObject (Some (exampleMeta [] (Some ''fast'') None))),
      (''legacy'', RuleCreateFunction None),
      (''no-baz'', RuleObject (Some (exampleMeta [] None None)))]
     = Inr [exampleDetails ''no-foo'' [] True, exampleDetails ''no-bar'' [] False,
            exampleDetails ''no-baz'' [] False] \<and>
   map (\<lambda>d. (name d, fixable d))
     [exampleDetails ''no-foo'' [] True, exampleDetails ''no-bar'' [] False,
      exampleDetails ''no-baz'' [] False]
     = [(''no-foo'', True), (''no-bar'', False), (''no-baz'', False)] \<and>
   gatherDetails
     [(''no-foo'', RuleObject (Some (exampleMeta [] (Some ''code'') None))),
      (''no-docs'', RuleObject (Some ((exampleMeta [] (Some ''code'') None)\<lparr> meta_docs := None \<rparr>)))]
     = Inl TypeError"
proof -
  let ?entries = "[(''no-foo'', RuleObject (Some (exampleMeta [] (Some ''code'') None))),
      (''no-bar'', RuleObject (Some (exampleMeta [] (Some ''fast'') None))),
      (''legacy'', RuleCreateFunction None),
      (''no-baz'', RuleObject (Some (exampleMeta [] None None)))]"
  let ?ds = "[exampleDetails ''no-foo'' [] True, exampleDetails ''no-bar'' [] False,
            exampleDetails ''no-baz'' [] False]"
  have w: "rulesWithMeta ?entries =
             [(''no-foo'', exampleMeta [] (Some ''code'') None),
              (''no-bar'', exampleMeta [] (Some ''fast'') None),
              (''no-baz'', exampleMeta [] None None)]"
    by (simp add: rulesWithMeta_def List.map_filter_simps)
  have g: "gatherDetails ?entries = Inr ?ds"
    by (simp add: gatherDetails_def w example_rule)
  from normalized_fixable [of ?entries]
  have "map (\<lambda>d. (name d, fixable d)) ?ds =
          map (\<lambda>(n, m). (n, meta_fixable m = Some ''code'' \<or> meta_fixable m = Some ''whitespace''))
              (rulesWithMeta ?entries)"
    unfolding g by simp
  then have m: "map (\<lambda>d. (name d, fixable d)) ?ds
     = [(''no-foo'', True), (''no-bar'', False), (''no-baz'', False)]"
    unfolding w by (simp add: exampleMeta_def)
  have t: "gatherDetails
     [(''no-foo'', RuleObject (Some (exampleMeta [] (Some ''code'') None))),
      (''no-docs'', RuleObject (Some ((exampleMeta [] (Some ''code'') None)\<lparr> meta_docs := None \<rparr>)))]
     = Inl TypeError"
    by (simp add: gatherDetails_def rulesWithMeta_def List.map_filter_simps ruleDetails_def
          exampleMeta_def)
  from g m t show ?thesis by simp
qed

text \<open>
  C8 does not hold of the code. \<open>RuleDetails\<close> declares the property \<open>type\<close> for the
  category of the rule, but the normalizer never sets it: a rule that declares the
  category \<open>problem\<close> is normalized to a record without a type.
\<close>

theorem normalizer_leaves_type_unset:
  "meta_type (exampleMeta [''ignoreBar''] (Some ''code'') (Some ''problem'')) = Some ''problem'' \<and>
   map_sum id (map type) (gatherDetails
     [(''no-foo'', RuleObject (Some (exampleMeta [''ignoreBar''] (Some ''code'') (Some ''problem''))))])
   = Inr [None]"
  by (simp add: gatherDetails_def rulesWithMeta_def List.map_filter_simps ruleDetails_def
        exampleMeta_def)

section \<open>Properties of the legends\<close>

lemma findEmoji_none: "findEmoji (\<lambda>configEmoji. False) configEmojis = None"
  by (induction configEmojis) (simp_all add: findEmoji_def)

lemma truthy_findEmoji:
  "truthy (findEmoji (\<lambda>configEmoji. config configEmoji = n) configEmojis)
     \<longleftrightarrow> assignedEmoji configEmojis n \<noteq> None"
  by (simp add: truthy_def findEmoji_def assignedEmoji_def split: option.splits)

lemma generic_condition:
  "(length ns > 1 \<or>
      \<not> truthy (findEmoji (\<lambda>configEmoji. config configEmoji \<in> set ns) configEmojis))
   \<longleftrightarrow> (length ns \<noteq> 1 \<or> assignedEmoji configEmojis (hd ns) = None)"
proof (cases ns)
  case Nil
  then show ?thesis by (simp add: findEmoji_none truthy_def)
next
  case (Cons n rest)
  show ?thesis
  proof (cases rest)
    case Nil
    with Cons show ?thesis by (simp add: truthy_findEmoji)
  next
    case (Cons a list)
    with \<open>ns = n # rest\<close> show ?thesis by simp
  qed
qed

lemma config_line:
  "(case findEmoji (\<lambda>configEmoji. config configEmoji = n) configEmojis of
      None \<Rightarrow> []
    | Some e \<Rightarrow> if e \<noteq> [] then [configLegend e n urlConfigs] else [])
   = (case assignedEmoji configEmojis n of
        None \<Rightarrow> []
      | Some e \<Rightarrow> [configLegend e n urlConfigs])"
  by (simp add: findEmoji_def assignedEmoji_def split: option.splits)

text \<open>
  C6 (as amended). For a plugin that has configs, the configs legend is rendered without
  error. The generic line is emitted exactly when the number of configs that are not
  ignored is not one, or the sole such config has no assigned emoji; so it is also emitted
  when every config is ignored. It is followed by one line for each config that is not
  ignored and has an assigned emoji, in the order of the configs, naming the config and
  its glyph. The legend is never empty.
\<close>

theorem legendConfigs_lines:
  assumes "configs plugin = Some cs"
  shows "\<exists>ls. legendConfigs k plugin configEmojis ignoreConfig urlConfigs = Inr ls \<and>
           ls = (if length (nonIgnoredConfigs plugin ignoreConfig) \<noteq> 1 \<or>
                    assignedEmoji configEmojis (hd (nonIgnoredConfigs plugin ignoreConfig)) = None
                 then [genericConfigLegend k urlConfigs] else []) @
                concat (map (\<lambda>configName.
                          case assignedEmoji configEmojis configName of
                            None \<Rightarrow> []
                          | Some e \<Rightarrow> [configLegend e configName urlConfigs])
                        (nonIgnoredConfigs plugin ignoreConfig)) \<and>
           ls \<noteq> []"
proof -
  let ?ns = "nonIgnoredConfigs plugin ignoreConfig"
  let ?generic = "if length ?ns \<noteq> 1 \<or> assignedEmoji configEmojis (hd ?ns) = None
                 then [genericConfigLegend k urlConfigs] else []"
  let ?each = "concat (map (\<lambda>configName.
                          case assignedEmoji configEmojis configName of
                            None \<Rightarrow> []
                          | Some e \<Rightarrow> [configLegend e configName urlConfigs]) ?ns)"
  have ns: "?ns = filter (\<lambda>configName. configName \<notin> set ignoreConfig) (map fst cs)"
    using assms by (simp add: nonIgnoredConfigs_def)
  have "legendConfigs k plugin configEmojis ignoreConfig urlConfigs =
          Inr ((if length ?ns > 1 \<or>
                   \<not> truthy (findEmoji (\<lambda>configEmoji. config configEmoji \<in> set ?ns) configEmojis)
                then [genericConfigLegend k urlConfigs] else []) @ ?each)"
    using assms unfolding ns by (simp add: legendConfigs_def Let_def config_line)
  then have r: "legendConfigs k plugin configEmojis ignoreConfig urlConfigs = Inr (?generic @ ?each)"
    by (simp only: generic_condition)
  have "?generic @ ?each \<noteq> []"
  proof (cases "length ?ns \<noteq> 1 \<or> assignedEmoji configEmojis (hd ?ns) = None")
    case True
    then show ?thesis by simp
  next
    case False
    then obtain n where n: "?ns = [n]"
      by (cases ?ns) auto
    with False obtain e where "assignedEmoji configEmojis n = Some e"
      by auto
    then have "?each = [configLegend e n urlConfigs]"
      unfolding n by simp
    then show ?thesis by simp
  qed
  with r show ?thesis by blast
qed

text \<open>
  Two configs, one with an emoji: the generic line and one line for the config with the
  emoji. One config left after the ignored one, with an emoji: its line alone.
\<close>

theorem legendConfigs_lines_witness:
  "configs \<lparr> configs = Some [(''recommended'', ()), (''style'', ())],
             rules = (None :: (string \<times> string list RuleModule) list option) \<rparr>
     = Some [(''recommended'', ()), (''style'', ())] \<and>
   legendConfigs exampleConstants
     \<lparr> configs = Some [(''recommended'', ()), (''style'', ())],
       rules = (None :: (string \<times> string list RuleModule) list option) \<rparr>
     [\<lparr> config = ''recommended'', emoji = ''(ok)'' \<rparr>] [] None
     = Inr [''(cfg) Configurations enabled in.'',
            ''(ok) Enabled in the `recommended` configuration.''] \<and>
   legendConfigs exampleConstants
     \<lparr> configs = Some [(''recommended'', ()), (''all'', ())],
       rules = (None :: (string \<times> string list RuleModule) list option) \<rparr>
     [\<lparr> config = ''recommended'', emoji = ''(ok)'' \<rparr>] [''all''] None
     = Inr [''(ok) Enabled in the `recommended` configuration.'']"
proof -
  let ?P = "\<lparr> configs = Some [(''recommended'', ()), (''style'', ())],
             rules = (None :: (string \<times> string list RuleModule) list option) \<rparr>"
  let ?Q = "\<lparr> configs = Some [(''recommended'', ()), (''all'', ())],
             rules = (None :: (string \<times> string list RuleModule) list option) \<rparr>"
  let ?E = "[\<lparr> config = ''recommended'', emoji = ''(ok)'' \<rparr>]"
  have a: "configs ?P = Some [(''recommended'', ()), (''style'', ())]"
    by simp
  have b: "configs ?Q = Some [(''recommended'', ()), (''all'', ())]"
    by simp
  have p: "nonIgnoredConfigs ?P [] = [''recommended'', ''style'']"
    by (simp add: nonIgnoredConfigs_def)
  have q: "nonIgnoredConfigs ?Q [''all''] = [''recommended'']"
    by (simp add: nonIgnoredConfigs_def)
  have e1: "assignedEmoji ?E ''recommended'' = Some ''(ok)''"
    by (simp add: assignedEmoji_def)
  have e2: "assignedEmoji ?E ''style'' = None"
    by (simp add: assignedEmoji_def)
  have g: "genericConfigLegend exampleConstants None = ''(cfg) Configurations enabled in.''"
    by (simp add: genericConfigLegend_def exampleConstants_def configsLinkOrWord_def)
  have l: "configLegend ''(ok)'' ''recommended'' None
             = ''(ok) Enabled in the `recommended` configuration.''"
    by (simp add: configLegend_def configLinkOrWord_def)
  from legendConfigs_lines [OF a, of exampleConstants ?E "[]" None]
  have "legendConfigs exampleConstants ?P ?E [] None
     = Inr [''(cfg) Configurations enabled in.'',
            ''(ok) Enabled in the `recommended` configuration.'']"
    unfolding p by (simp add: e1 e2 g l)
  moreover from legendConfigs_lines [OF b, of exampleConstants ?E "[''all'']" None]
  have "legendConfigs exampleConstants ?Q ?E [''all''] None
     = Inr [''(ok) Enabled in the `recommended` configuration.'']"
    unfolding q by (simp add: e1 l)
  ultimately show ?thesis using a by blast
qed

text \<open>
  The claim as written ties the generic line to more than one config that is not ignored,
  or a sole one without emoji. A plugin whose only config is ignored has neither, and the
  generic line is emitted.
\<close>

theorem legendConfigs_generic_line_without_config:
  "configs \<lparr> configs = Some [(''all'', ())],
             rules = (None :: (string \<times> string list RuleModule) list option) \<rparr>
     = Some [(''all'', ())] \<and>
   length (nonIgnoredConfigs
     \<lparr> configs = Some [(''all'', ())],
       rules = (None :: (string \<times> string list RuleModule) list option) \<rparr> [''all'']) = 0 \<and>
   legendConfigs exampleConstants
     \<lparr> configs = Some [(''all'', ())],
       rules = (None :: (string \<times> string list RuleModule) list option) \<rparr>
     [] [''all''] None
     = Inr [''(cfg) Configurations enabled in.'']"
  by (simp add: nonIgnoredConfigs_def legendConfigs_def findEmoji_def truthy_def
        genericConfigLegend_def exampleConstants_def configsLinkOrWord_def)

lemma someRuleHasType_no_Error: "someRuleHasType rs ruleType \<noteq> Inl (Error msg)"
  by (induction rs ruleType rule: someRuleHasType.induct) simp_all

lemma typeLegends_no_Error: "typeLegends k rs ruleTypes hasAny legends \<noteq> Inl (Error msg)"
proof (induction ruleTypes arbitrary: hasAny legends)
  case Nil
  then show ?case by simp
next
  case (Cons t ts)
  show ?case
  proof (cases "someRuleHasType rs t")
    case (Inl e)
    with someRuleHasType_no_Error [of rs t msg] show ?thesis by auto
  next
    case (Inr b)
    with Cons show ?thesis by simp
  qed
qed

lemma legendConfigs_Inl:
  "legendConfigs k plugin configEmojis ignoreConfig urlConfigs = Inl e \<Longrightarrow> configs plugin = None"
  by (auto simp: legendConfigs_def Let_def split: option.splits)

lemma legendType_Error:
  "legendType k plugin = Inl (Error msg) \<Longrightarrow> rules plugin = None"
  by (auto simp: legendType_def typeLegends_no_Error split: option.splits)

lemma legendLines_Error:
  "legendLines k columns plugin configEmojis ignoreConfig urlConfigs = Inl (Error msg) \<Longrightarrow>
     ((CONFIGS, True) \<in> set columns \<and> configs plugin = None) \<or>
     ((TYPE_COLUMN, True) \<in> set columns \<and> rules plugin = None)"
proof (induction columns)
  case Nil
  then show ?case by simp
next
  case (Cons column columns)
  obtain columnType enabled where c: "column = (columnType, enabled)"
    by (cases column)
  show ?case
  proof (cases enabled)
    case False
    with Cons c show ?thesis by (auto split: sum.splits)
  next
    case True
    with Cons c show ?thesis
      by (cases columnType)
         (auto split: sum.splits dest: legendConfigs_Inl legendType_Error)
  qed
qed

text \<open>
  C9 (as amended). The configs legend raises its internal error exactly for a plugin
  without a \<open>configs\<close> property, and the type legend raises its internal error exactly
  for a plugin without a \<open>rules\<close> property; a plugin whose \<open>configs\<close> or \<open>rules\<close> is
  present, even if empty, raises neither. \<open>generateLegend\<close> raises such an error only
  when the configs column is enabled for a plugin without \<open>configs\<close> or the type column
  is enabled for a plugin without \<open>rules\<close>: a caller that enables these columns only
  when the property is there never reaches the branch.
\<close>

theorem legend_internal_error:
  "(configs plugin = None \<longrightarrow>
      legendConfigs k plugin configEmojis ignoreConfig urlConfigs =
        Inl (Error ''Should not be attempting to display configs column when there are no configs.'')) \<and>
   (configs plugin \<noteq> None \<longrightarrow>
      (\<exists>ls. legendConfigs k plugin configEmojis ignoreConfig urlConfigs = Inr ls)) \<and>
   (rules plugin = None \<longrightarrow>
      legendType k plugin =
        Inl (Error ''Should not be attempting to display type column when there are no rules.'')) \<and>
   (rules plugin \<noteq> None \<longrightarrow> (\<forall>msg. legendType k plugin \<noteq> Inl (Error msg))) \<and>
   (\<forall>msg. generateLegend k columns plugin configEmojis ignoreConfig urlConfigs = Inl (Error msg) \<longrightarrow>
      ((CONFIGS, True) \<in> set columns \<and> configs plugin = None) \<or>
      ((TYPE_COLUMN, True) \<in> set columns \<and> rules plugin = None))"
proof (intro conjI impI allI)
  assume "configs plugin = None"
  then show "legendConfigs k plugin configEmojis ignoreConfig urlConfigs =
        Inl (Error ''Should not be attempting to display configs column when there are no configs.'')"
    by (simp add: legendConfigs_def)
next
  assume "configs plugin \<noteq> None"
  then show "\<exists>ls. legendConfigs k plugin configEmojis ignoreConfig urlConfigs = Inr ls"
    by (auto simp: legendConfigs_def Let_def)
next
  assume "rules plugin = None"
  then show "legendType k plugin =
        Inl (Error ''Should not be attempting to display type column when there are no rules.'')"
    by (simp add: legendType_def)
next
  fix msg
  assume "rules plugin \<noteq> None"
  then show "legendType k plugin \<noteq> Inl (Error msg)"
    using legendType_Error [of k plugin msg] by auto
next
  fix msg
  assume "generateLegend k columns plugin configEmojis ignoreConfig urlConfigs = Inl (Error msg)"
  then have "legendLines k columns plugin configEmojis ignoreConfig urlConfigs = Inl (Error msg)"
    by (simp add: generateLegend_def split: sum.splits)
  then show "((CONFIGS, True) \<in> set columns \<and> configs plugin = None) \<or>
      ((TYPE_COLUMN, True) \<in> set columns \<and> rules plugin = None)"
    by (rule legendLines_Error)
qed

text \<open>
  The example plugin has rules and no configs; a second plugin has a config and no rules.
\<close>

theorem legend_internal_error_witness:
  "configs examplePlugin = None \<and>
   legendConfigs exampleConstants examplePlugin [] [] None =
     Inl (Error ''Should not be attempting to display configs column when there are no configs.'') \<and>
   rules \<lparr> configs = Some [(''recommended'', ())],
           rules = (None :: (string \<times> string list RuleModule) list option) \<rparr> = None \<and>
   legendType exampleConstants
     \<lparr> configs = Some [(''recommended'', ())],
       rules = (None :: (string \<times> string list RuleModule) list option) \<rparr> =
     Inl (Error ''Should not be attempting to display type column when there are no rules.'') \<and>
   (\<exists>ls. legendConfigs exampleConstants
     \<lparr> configs = Some [(''recommended'', ())],
       rules = (None :: (string \<times> string list RuleModule) list option) \<rparr> [] [] None = Inr ls) \<and>
   (CONFIGS, True) \<notin> set [(NAME, True), (CONFIGS, False), (FIXABLE, True), (TYPE_COLUMN, True)] \<and>
   rules examplePlugin \<noteq> None \<and>
   generateLegend exampleConstants [(NAME, True), (CONFIGS, False), (FIXABLE, True), (TYPE_COLUMN, True)]
     examplePlugin [] [] None
     \<noteq> Inl (Error ''Should not be attempting to display configs column when there are no configs.'')"
proof -
  let ?P = "\<lparr> configs = Some [(''recommended'', ())],
             rules = (None :: (string \<times> string list RuleModule) list option) \<rparr>"
  let ?cols = "[(NAME, True), (CONFIGS, False), (FIXABLE, True), (TYPE_COLUMN, True)]"
  have a: "configs examplePlugin = None"
    by (simp add: examplePlugin_def)
  have b: "rules ?P = None"
    by simp
  have c: "configs ?P \<noteq> None"
    by simp
  have d: "(CONFIGS, True) \<notin> set ?cols"
    by simp
  have e: "rules examplePlugin \<noteq> None"
    by (simp add: examplePlugin_def)
  from legend_internal_error [of examplePlugin exampleConstants "[]" "[]" None ?cols] a
  have 1: "legendConfigs exampleConstants examplePlugin [] [] None =
     Inl (Error ''Should not be attempting to display configs column when there are no configs.'')"
    by blast
  from legend_internal_error [of examplePlugin exampleConstants "[]" "[]" None ?cols] d e
  have 2: "generateLegend exampleConstants ?cols examplePlugin [] [] None
     \<noteq> Inl (Error ''Should not be attempting to display configs column when there are no configs.'')"
    by (elim conjE) auto
  from legend_internal_error [of ?P exampleConstants "[]" "[]" None ?cols] b c
  have 3: "legendType exampleConstants ?P =
     Inl (Error ''Should not be attempting to display type column when there are no rules.'')"
    and 4: "\<exists>ls. legendConfigs exampleConstants ?P [] [] None = Inr ls"
    by blast+
  from a b d e 1 2 3 4 show ?thesis by blast
qed

text \<open>
  The claim as written has the error raised for a plugin that exposes zero configs or zero
  rules. A plugin whose \<open>configs\<close> and \<open>rules\<close> are empty objects exposes none, and
  both legends are rendered without error.
\<close>

theorem legends_of_empty_plugin_raise_nothing:
  "legendConfigs exampleConstants
     \<lparr> configs = Some ([] :: (string \<times> unit) list),
       rules = Some ([] :: (string \<times> string list RuleModule) list) \<rparr> [] [] None
     = Inr [''(cfg) Configurations enabled in.''] \<and>
   legendType exampleConstants
     \<lparr> configs = Some ([] :: (string \<times> unit) list),
       rules = Some ([] :: (string \<times> string list RuleModule) list) \<rparr>
     = Inr []"
  by (simp add: legendConfigs_def findEmoji_def truthy_def legendType_def
        genericConfigLegend_def exampleConstants_def configsLinkOrWord_def)

section \<open>Properties of the severity sets\<close>

text \<open>
  C10. The sets of the encodings of the three severities are pairwise disjoint, so an
  encoding belongs to the set of at most one severity type.
\<close>

theorem severity_sets_disjoint:
  "SEVERITY_ERROR \<inter> SEVERITY_WARN = {} \<and>
   SEVERITY_ERROR \<inter> SEVERITY_OFF = {} \<and>
   SEVERITY_WARN \<inter> SEVERITY_OFF = {} \<and>
   (\<forall>s t t'. s \<in> SEVERITY_TYPE_TO_SET t \<and> s \<in> SEVERITY_TYPE_TO_SET t' \<longrightarrow> t = t')"
proof -
  have d: "SEVERITY_ERROR \<inter> SEVERITY_WARN = {}" "SEVERITY_ERROR \<inter> SEVERITY_OFF = {}"
    "SEVERITY_WARN \<inter> SEVERITY_OFF = {}"
    by (simp_all add: SEVERITY_ERROR_def SEVERITY_WARN_def SEVERITY_OFF_def)
  have "t = t'" if "s \<in> SEVERITY_TYPE_TO_SET t" "s \<in> SEVERITY_TYPE_TO_SET t'" for s t t'
    using that d by (cases t; cases t') auto
  with d show ?thesis by blast
qed

text \<open>The string \<open>warn\<close> is a warning, and so neither an error nor off.\<close>

theorem severity_sets_disjoint_witness:
  "SeverityString ''warn'' \<in> SEVERITY_TYPE_TO_SET SEVERITY_TYPE_warn \<and>
   SeverityString ''warn'' \<notin> SEVERITY_TYPE_TO_SET SEVERITY_TYPE_error \<and>
   SeverityString ''warn'' \<notin> SEVERITY_TYPE_TO_SET SEVERITY_TYPE_off"
proof -
  have a: "SeverityString ''warn'' \<in> SEVERITY_TYPE_TO_SET SEVERITY_TYPE_warn"
    by (simp add: SEVERITY_WARN_def)
  from severity_sets_disjoint a
  have "SeverityString ''warn'' \<in> SEVERITY_TYPE_TO_SET t \<Longrightarrow> SEVERITY_TYPE_warn = t" for t
    by blast
  then have "SeverityString ''warn'' \<notin> SEVERITY_TYPE_TO_SET SEVERITY_TYPE_error"
    and "SeverityString ''warn'' \<notin> SEVERITY_TYPE_TO_SET SEVERITY_TYPE_off"
    by blast+
  with a show ?thesis by simp
qed

end
